theory Spec2Isabelle
  imports Complex_Main "HOL-Library.Sublist"
begin

section \<open>The KanBan dashboard server (server.py)\<close>

text \<open>
  A shallow embedding of \<^verbatim>\<open>server.py\<close>: the request handler \<^verbatim>\<open>DashboardHandler\<close> with
  its methods \<^verbatim>\<open>do_GET\<close>, \<^verbatim>\<open>send_json\<close>, \<^verbatim>\<open>send_status\<close> and \<^verbatim>\<open>send_log\<close>.

  What the handler reads from outside (the files under the dashboard directory, the
  clock) and what it calls in the interpreter (the JSON parser, \<^verbatim>\<open>repr\<close>) is gathered in a
  record \<open>world\<close>; each handler is a function of the world. An exception that leaves a
  handler is the outcome \<open>Faulted\<close>; an exception caught by one of the handler's
  \<^verbatim>\<open>except Exception\<close> clauses is a branch of the model.
\<close>

subsection \<open>Python values\<close>

text \<open>
  The values \<^verbatim>\<open>json.load\<close> produces: \<^verbatim>\<open>None\<close>, \<^verbatim>\<open>bool\<close>, \<^verbatim>\<open>int\<close>, \<^verbatim>\<open>float\<close>, \<^verbatim>\<open>str\<close>, \<^verbatim>\<open>list\<close>
  and \<^verbatim>\<open>dict\<close>. A float is its exact rational value, or one of the values that have none.
  A \<^verbatim>\<open>dict\<close> is the list of its items in insertion order. The parser only builds
  dictionaries with string keys, but \<^verbatim>\<open>dict.update\<close> can insert any hashable key, so a
  key is a value. A \<open>char\<close> stands for one code point of a Python string (code points
  below 256).
\<close>

datatype pyfloat = Finite rat | NegZero | PosInf | NegInf | NaN

datatype pyval =
    PNone
  | PBool bool
  | PInt int
  | PFloat pyfloat
  | PStr string
  | PList "pyval list"
  | PDict "(pyval \<times> pyval) list"

type_synonym pydict = "(pyval \<times> pyval) list"

datatype py_error =
  OSError | JSONDecodeError | KeyError | TypeError | ValueError | RecursionError

text \<open>
  Two keys are the same key of a dictionary when they are equal in Python and hash alike:
  strings by their text, numbers by their value (\<^verbatim>\<open>True == 1 == 1.0\<close>). \<open>hash_key\<close> maps a
  key to what identifies it; a list or a dictionary is unhashable (\<open>None\<close>).
\<close>

datatype hkey = HNone | HNum rat | HPosInf | HNegInf | HNaN | HStr string

fun hash_key :: "pyval \<Rightarrow> hkey option" where
  "hash_key PNone = Some HNone"
| "hash_key (PBool b) = Some (HNum (if b then 1 else 0))"
| "hash_key (PInt i) = Some (HNum (of_int i))"
| "hash_key (PFloat (Finite q)) = Some (HNum q)"
| "hash_key (PFloat NegZero) = Some (HNum 0)"
| "hash_key (PFloat PosInf) = Some HPosInf"
| "hash_key (PFloat NegInf) = Some HNegInf"
| "hash_key (PFloat NaN) = Some HNaN"
| "hash_key (PStr s) = Some (HStr s)"
| "hash_key (PList xs) = None"
| "hash_key (PDict d) = None"

text \<open>\<^verbatim>\<open>d[k]\<close> on a dictionary, for a hashable \<open>k\<close>: the value of the item with that key.\<close>

fun dict_get :: "pydict \<Rightarrow> pyval \<Rightarrow> pyval option" where
  "dict_get [] k = None"
| "dict_get ((k', v') # d) k =
     (if hash_key k' = hash_key k then Some v' else dict_get d k)"

text \<open>
  \<^verbatim>\<open>d[k] = v\<close>: an item with that key keeps its place (and its stored key) and takes the
  new value; a new key is appended.
\<close>

fun dict_set :: "pydict \<Rightarrow> pyval \<Rightarrow> pyval \<Rightarrow> pydict" where
  "dict_set [] k v = [(k, v)]"
| "dict_set ((k', v') # d) k v =
     (if hash_key k' = hash_key k then (k', v) # d else (k', v') # dict_set d k v)"

text \<open>
  \<^verbatim>\<open>x[k]\<close> for a string \<open>k\<close> on any value: a dictionary looks the key up
  (\<^verbatim>\<open>KeyError\<close> when it is missing); a list or a string takes integer indices only and a
  number, a boolean or \<^verbatim>\<open>None\<close> is not subscriptable (\<^verbatim>\<open>TypeError\<close>).
\<close>

definition subscript :: "pyval \<Rightarrow> string \<Rightarrow> py_error + pyval" where
  "subscript x k =
     (case x of
        PDict d \<Rightarrow> (case dict_get d (PStr k) of None \<Rightarrow> Inl KeyError | Some v \<Rightarrow> Inr v)
      | _ \<Rightarrow> Inl TypeError)"

text \<open>
  The elements \<^verbatim>\<open>for e in x\<close> runs over: the elements of a list, the keys of a
  dictionary, the one-character strings of a string; anything else is not iterable.
\<close>

definition py_iter :: "pyval \<Rightarrow> py_error + pyval list" where
  "py_iter x =
     (case x of
        PList xs \<Rightarrow> Inr xs
      | PDict d \<Rightarrow> Inr (map fst d)
      | PStr s \<Rightarrow> Inr (map (\<lambda>c. PStr [c]) s)
      | _ \<Rightarrow> Inl TypeError)"

text \<open>
  How deep the lists and dictionaries of a value are nested: the depth of recursion
  that \<^verbatim>\<open>json.dumps\<close> needs for it. (The keys of a dictionary are counted like its
  values; a hashable key is no list and no dictionary and counts 0.)
\<close>

definition max_list :: "nat list \<Rightarrow> nat" where
  "max_list ns = foldr max ns 0"

primrec nesting :: "pyval \<Rightarrow> nat" where
  "nesting PNone = 0"
| "nesting (PBool b) = 0"
| "nesting (PInt i) = 0"
| "nesting (PFloat f) = 0"
| "nesting (PStr s) = 0"
| "nesting (PList xs) = Suc (max_list (map nesting xs))"
| "nesting (PDict d) =
     Suc (max_list (map (\<lambda>kv. max (fst kv) (snd kv)) (map (map_prod nesting nesting) d)))"

subsection \<open>\<^verbatim>\<open>dict.update\<close>\<close>

text \<open>
  \<^verbatim>\<open>task.update(status)\<close> with a dictionary stores the items of \<open>status\<close> one by one.
\<close>

definition update_mapping :: "pydict \<Rightarrow> pydict \<Rightarrow> pydict" where
  "update_mapping d s = foldl (\<lambda>acc (k, v). dict_set acc k v) d s"

text \<open>
  With any other argument \<^verbatim>\<open>update\<close> iterates over it and expects every element to be a
  sequence of exactly two elements, a key and a value. It raises at the first element
  that is not iterable (\<^verbatim>\<open>TypeError\<close>), has another length (\<^verbatim>\<open>ValueError\<close>) or has an
  unhashable key (\<^verbatim>\<open>TypeError\<close>); the items stored before that element stay stored. The
  result is the dictionary as it is afterwards, and the exception if one was raised.
\<close>

fun update_seq :: "pydict \<Rightarrow> pyval list \<Rightarrow> pydict \<times> py_error option" where
  "update_seq d [] = (d, None)"
| "update_seq d (e # es) =
     (case py_iter e of
        Inl err \<Rightarrow> (d, Some err)
      | Inr [k, v] \<Rightarrow>
          (if hash_key k = None then (d, Some TypeError)
           else update_seq (dict_set d k v) es)
      | Inr _ \<Rightarrow> (d, Some ValueError))"

definition dict_update :: "pydict \<Rightarrow> pyval \<Rightarrow> pydict \<times> py_error option" where
  "dict_update d status =
     (case status of
        PDict s \<Rightarrow> (update_mapping d s, None)
      | _ \<Rightarrow>
          (case py_iter status of
             Inl err \<Rightarrow> (d, Some err)
           | Inr es \<Rightarrow> update_seq d es))"

subsection \<open>Formatting a value into a string\<close>

text \<open>The decimal digits of an integer, as \<^verbatim>\<open>str\<close> writes them.\<close>

definition digit :: "nat \<Rightarrow> char" where
  "digit n = ''0123456789'' ! (n mod 10)"

fun str_nat :: "nat \<Rightarrow> string" where
  "str_nat n = (if n < 10 then [digit n] else str_nat (n div 10) @ [digit n])"

declare str_nat.simps [simp del]

definition str_int :: "int \<Rightarrow> string" where
  "str_int i = (if i < 0 then CHR ''-'' # str_nat (nat (- i)) else str_nat (nat i))"

subsection \<open>The world of a request\<close>

text \<open>
  A path of the file system is absent (\<^verbatim>\<open>os.path.exists\<close> is false and \<^verbatim>\<open>open\<close> raises),
  or exists but cannot be opened and read as text (a directory, no permission, bytes
  that do not decode), or is a file with a text: what \<^verbatim>\<open>f.read()\<close> returns, line ends
  already translated to \<^verbatim>\<open>\n\<close>.
\<close>

datatype file_state = Absent | Unreadable | Content string

text \<open>
  \<open>json_loads\<close> is \<^verbatim>\<open>json.loads\<close> (\<open>None\<close> when it raises); \<open>py_repr\<close> is what \<^verbatim>\<open>str\<close> gives
  for a float, a list or a dictionary; \<open>now_iso\<close> is \<^verbatim>\<open>datetime.now().isoformat()\<close>.

  \<^verbatim>\<open>json.dumps\<close> raises \<^verbatim>\<open>RecursionError\<close> on a value that is nested deeper than the
  recursion depth the interpreter has left. The handler runs a few frames below the top
  of the stack, with room for the three levels of the deepest body it builds by itself
  (\<^verbatim>\<open>{"entries": [{"message": ..., "time": ""}]}\<close>); \<open>dumps_room\<close> is the number of levels
  left beyond these three (some 990 with the default limit of 1000).
\<close>

record world =
  files :: "string \<Rightarrow> file_state"
  json_loads :: "string \<Rightarrow> pyval option"
  py_repr :: "pyval \<Rightarrow> string"
  now_iso :: string
  dumps_room :: nat

text \<open>The conversion of \<^verbatim>\<open>f'{x}'\<close>, which is \<^verbatim>\<open>str(x)\<close>.\<close>

definition py_str :: "world \<Rightarrow> pyval \<Rightarrow> string" where
  "py_str w x =
     (case x of
        PStr s \<Rightarrow> s
      | PInt i \<Rightarrow> str_int i
      | PBool b \<Rightarrow> (if b then ''True'' else ''False'')
      | PNone \<Rightarrow> ''None''
      | _ \<Rightarrow> py_repr w x)"

text \<open>
  The accesses to the file system a handler makes, in order: a call of
  \<^verbatim>\<open>os.path.exists\<close> and a call of \<^verbatim>\<open>open\<close>.
\<close>

datatype fs_event = Exists string | Open string

definition path_exists :: "world \<Rightarrow> string \<Rightarrow> bool" where
  "path_exists w p = (files w p \<noteq> Absent)"

text \<open>\<^verbatim>\<open>with open(p) as f: f.read()\<close>.\<close>

definition open_read :: "world \<Rightarrow> string \<Rightarrow> py_error + string" where
  "open_read w p = (case files w p of Content s \<Rightarrow> Inr s | _ \<Rightarrow> Inl OSError)"

text \<open>\<^verbatim>\<open>with open(p) as f: json.load(f)\<close>; \<^verbatim>\<open>json.load\<close> is \<^verbatim>\<open>json.loads(f.read())\<close>.\<close>

definition json_load :: "world \<Rightarrow> string \<Rightarrow> py_error + pyval" where
  "json_load w p =
     (case open_read w p of
        Inl e \<Rightarrow> Inl e
      | Inr s \<Rightarrow> (case json_loads w s of None \<Rightarrow> Inl JSONDecodeError | Some v \<Rightarrow> Inr v))"

subsection \<open>Paths\<close>

text \<open>\<^verbatim>\<open>os.path.join(a, b)\<close> of \<^verbatim>\<open>posixpath\<close>, for two arguments.\<close>

definition path_join :: "string \<Rightarrow> string \<Rightarrow> string" where
  "path_join a b =
     (if b \<noteq> [] \<and> hd b = CHR ''/'' then b
      else if a = [] \<or> last a = CHR ''/'' then a @ b
      else a @ ''/'' @ b)"

definition DASHBOARD_DIR :: string where
  "DASHBOARD_DIR = ''/tmp/kanban-dashboard''"

definition STATUS_DIR :: string where
  "STATUS_DIR = path_join DASHBOARD_DIR ''status''"

definition LOG_FILE :: string where
  "LOG_FILE = path_join DASHBOARD_DIR ''activity.log''"

text \<open>The path of line 42.\<close>

definition TASKS_FILE :: string where
  "TASKS_FILE = path_join DASHBOARD_DIR ''tasks.json''"

subsection \<open>The handler\<close>

record response =
  status_code :: nat
  headers :: "(string \<times> string) list"
  body :: pyval

text \<open>
  What a request ends in: a response written by \<^verbatim>\<open>send_json\<close>, an exception that leaves
  the handler (nothing is written to the client), or the request handed to the static
  file handler of the base class with a path. (The connection to the client is taken to
  be open while the handler runs: writing to it does not fail.)
\<close>

datatype outcome = Responded response | Faulted py_error | Static string

text \<open>
  Line 32: \<^verbatim>\<open>json.dumps(data)\<close> is evaluated first and is outside every \<^verbatim>\<open>try\<close>, at both
  places \<^verbatim>\<open>send_json\<close> is called from. The values the handler passes have hashable keys
  and no cycles, so the one exception it can raise is the \<^verbatim>\<open>RecursionError\<close> of a value
  nested too deep.
\<close>

definition json_dumps_raises :: "world \<Rightarrow> pyval \<Rightarrow> bool" where
  "json_dumps_raises w data = (3 + dumps_room w < nesting data)"

text \<open>
  \<^verbatim>\<open>send_json\<close>: when \<^verbatim>\<open>json.dumps\<close> raises, the exception leaves the handler before
  the status line is written. Otherwise the response has status 200, the three headers
  of lines 34 to 36, and the body \<^verbatim>\<open>json.dumps(data)\<close>, kept here as the value it
  serialises.
\<close>

definition send_json :: "world \<Rightarrow> pyval \<Rightarrow> outcome" where
  "send_json w data =
     (if json_dumps_raises w data then Faulted RecursionError
      else Responded
        \<lparr> status_code = 200,
          headers = [(''Content-Type'', ''application/json''),
                     (''Access-Control-Allow-Origin'', ''*''),
                     (''Cache-Control'', ''no-cache'')],
          body = data \<rparr>)"

text \<open>Line 49: the status file of a task id.\<close>

definition status_file :: "world \<Rightarrow> pyval \<Rightarrow> string" where
  "status_file w tid = path_join STATUS_DIR (''task-'' @ py_str w tid @ ''.json'')"

text \<open>
  Lines 50 to 56 for one task record: the record afterwards and the accesses made. An
  exception of \<^verbatim>\<open>open\<close>, \<^verbatim>\<open>json.load\<close> or \<^verbatim>\<open>update\<close> is swallowed; what \<^verbatim>\<open>update\<close> stored
  before it raised stays in the record.
\<close>

definition merge_status :: "world \<Rightarrow> pydict \<Rightarrow> string \<Rightarrow> pydict \<times> fs_event list" where
  "merge_status w task sf =
     (if path_exists w sf then
        (case json_load w sf of
           Inl e \<Rightarrow> (task, [Exists sf, Open sf])
         | Inr status \<Rightarrow> (fst (dict_update task status), [Exists sf, Open sf]))
      else (task, [Exists sf]))"

text \<open>
  The loop of line 48 over the elements of \<^verbatim>\<open>data['tasks']\<close>. \<^verbatim>\<open>task["id"]\<close> is outside
  every \<^verbatim>\<open>try\<close>: when it raises, the loop and the handler end with that exception. The
  result is the elements as the loop leaves them, or the exception, and the accesses
  made up to there. (Only a dictionary has an \<^verbatim>\<open>"id"\<close>, so the last case is never
  reached: it stands for \<^verbatim>\<open>update\<close> on a value that has none.)
\<close>

fun for_tasks :: "world \<Rightarrow> pyval list \<Rightarrow> (py_error + pyval list) \<times> fs_event list" where
  "for_tasks w [] = (Inr [], [])"
| "for_tasks w (task # rest) =
     (case subscript task ''id'' of
        Inl e \<Rightarrow> (Inl e, [])
      | Inr tid \<Rightarrow>
          (case task of
             PDict t \<Rightarrow>
               (let (t', ev) = merge_status w t (status_file w tid) in
                (case for_tasks w rest of
                   (Inl e, evs) \<Rightarrow> (Inl e, ev @ evs)
                 | (Inr rest', evs) \<Rightarrow> (Inr (PDict t' # rest'), ev @ evs)))
           | _ \<Rightarrow> (Inl TypeError, [])))"

text \<open>
  \<^verbatim>\<open>send_status\<close>. The records are updated in place, inside the list that
  \<^verbatim>\<open>data['tasks']\<close> holds: the model stores the list of the updated records under that
  key. (When \<^verbatim>\<open>data['tasks']\<close> is a dictionary or a string the loop only ends without
  an exception if it has no element, and nothing is updated. Only a dictionary has a
  \<^verbatim>\<open>'tasks'\<close>, so the case of a \<open>data\<close> that takes no \<^verbatim>\<open>server_time\<close> is never reached.)
\<close>

definition send_status :: "world \<Rightarrow> outcome \<times> fs_event list" where
  "send_status w =
     (case json_load w TASKS_FILE of
        Inl e \<Rightarrow>
          (send_json w (PDict [(PStr ''error'', PStr ''tasks.json not found'')]),
           [Open TASKS_FILE])
      | Inr data \<Rightarrow>
          (case subscript data ''tasks'' of
             Inl e \<Rightarrow> (Faulted e, [Open TASKS_FILE])
           | Inr tasks \<Rightarrow>
               (case py_iter tasks of
                  Inl e \<Rightarrow> (Faulted e, [Open TASKS_FILE])
                | Inr elems \<Rightarrow>
                    (case for_tasks w elems of
                       (Inl e, evs) \<Rightarrow> (Faulted e, Open TASKS_FILE # evs)
                     | (Inr elems', evs) \<Rightarrow>
                         (case data of
                            PDict d \<Rightarrow>
                              (let d' = (case tasks of
                                           PList _ \<Rightarrow> dict_set d (PStr ''tasks'') (PList elems')
                                         | _ \<Rightarrow> d);
                                   d'' = dict_set d' (PStr ''server_time'') (PStr (now_iso w))
                               in (send_json w (PDict d''), Open TASKS_FILE # evs))
                          | _ \<Rightarrow> (Faulted TypeError, Open TASKS_FILE # evs))))))"

subsection \<open>The activity log\<close>

text \<open>
  \<^verbatim>\<open>f.readlines()\<close>: the text cut after every \<^verbatim>\<open>\n\<close>; each line keeps its \<^verbatim>\<open>\n\<close>, and a
  last line without one is a line too.
\<close>

fun readlines :: "string \<Rightarrow> string list" where
  "readlines [] = []"
| "readlines (c # cs) =
     (if c = CHR 0x0A then [c] # readlines cs
      else (case readlines cs of [] \<Rightarrow> [[c]] | l # ls \<Rightarrow> (c # l) # ls))"

text \<open>\<^verbatim>\<open>xs[-n:]\<close> for a positive \<open>n\<close>: the last \<open>n\<close> elements, all of them when there are fewer.\<close>

definition last_n :: "nat \<Rightarrow> 'a list \<Rightarrow> 'a list" where
  "last_n n xs = drop (length xs - n) xs"

text \<open>
  The characters \<^verbatim>\<open>str.strip()\<close> removes, among the code points below 256: tab, line
  feed, vertical tab, form feed, carriage return, the separators 0x1C to 0x1F, space,
  next line (0x85) and no-break space (0xA0).
\<close>

definition is_space :: "char \<Rightarrow> bool" where
  "is_space c =
     (let n = (of_char c :: nat)
      in (9 \<le> n \<and> n \<le> 13) \<or> (28 \<le> n \<and> n \<le> 32) \<or> n = 133 \<or> n = 160)"

definition strip :: "string \<Rightarrow> string" where
  "strip s = rev (dropWhile is_space (rev (dropWhile is_space s)))"

text \<open>Lines 70 to 73: the entry of a trimmed, non-empty line.\<close>

definition log_entry :: "world \<Rightarrow> string \<Rightarrow> pyval" where
  "log_entry w line =
     (case json_loads w line of
        Some v \<Rightarrow> v
      | None \<Rightarrow> PDict [(PStr ''message'', PStr line), (PStr ''time'', PStr '''')])"

text \<open>The loop of lines 67 to 73, with the list \<^verbatim>\<open>entries\<close> it appends to.\<close>

fun for_lines :: "world \<Rightarrow> string list \<Rightarrow> pyval list \<Rightarrow> pyval list" where
  "for_lines w [] entries = entries"
| "for_lines w (line # rest) entries =
     (let line' = strip line
      in if line' \<noteq> [] then for_lines w rest (entries @ [log_entry w line'])
         else for_lines w rest entries)"

definition send_log :: "world \<Rightarrow> outcome \<times> fs_event list" where
  "send_log w =
     (if path_exists w LOG_FILE then
        (case open_read w LOG_FILE of
           Inl e \<Rightarrow>
             (send_json w (PDict [(PStr ''entries'', PList [])]),
              [Exists LOG_FILE, Open LOG_FILE])
         | Inr content \<Rightarrow>
             (send_json w (PDict [(PStr ''entries'',
                PList (for_lines w (last_n 50 (readlines content)) []))]),
              [Exists LOG_FILE, Open LOG_FILE]))
      else (send_json w (PDict [(PStr ''entries'', PList [])]), [Exists LOG_FILE]))"

subsection \<open>Routing\<close>

definition do_GET :: "world \<Rightarrow> string \<Rightarrow> outcome \<times> fs_event list" where
  "do_GET w path =
     (if path = ''/api/status'' then send_status w
      else if path = ''/api/log'' then send_log w
      else if path = ''/'' then (Static ''/index.html'', [])
      else (Static path, []))"

subsection \<open>Notions the properties are stated with\<close>

text \<open>
  A task record as the data model describes it: a dictionary with an \<^verbatim>\<open>id\<close>. A valid
  task-list document: a dictionary whose \<^verbatim>\<open>tasks\<close> is a list of task records.
\<close>

definition is_task :: "pyval \<Rightarrow> bool" where
  "is_task x =
     (case x of
        PDict t \<Rightarrow> (case dict_get t (PStr ''id'') of Some tid \<Rightarrow> True | None \<Rightarrow> False)
      | _ \<Rightarrow> False)"


text \<open>
  An element that \<^verbatim>\<open>dict.update\<close> stores when it stands first in its argument: a
  sequence of exactly two elements whose first is hashable.
\<close>

definition storable_pair :: "pyval \<Rightarrow> bool" where
  "storable_pair e =
     (case py_iter e of
        Inr [k, v] \<Rightarrow> (case hash_key k of Some h \<Rightarrow> True | None \<Rightarrow> False)
      | _ \<Rightarrow> False)"


text \<open>No two items of a dictionary have the same key, as in every Python dictionary.\<close>

definition dict_keys_distinct :: "pydict \<Rightarrow> bool" where
  "dict_keys_distinct d = distinct (map (\<lambda>kv. hash_key (fst kv)) d)"






subsection \<open>A dashboard directory to run the handler on\<close>

text \<open>
  A task list with three tasks and two further fields; the first task has a status file
  that parses, the second a truncated one, the third none. The activity log has a JSON
  object, a line that is no JSON, a line of spaces and a line that is a JSON number.
\<close>

definition demo_tasks_text :: string where
  \<open>demo_tasks_text =
     ''{"board": "swarm", "tasks": [{"id": 1, "title": "A"}, {"id": "b", "title": "B"}, {"id": 3}], "server_time": "old"}''\<close>

definition demo_task_1 :: pydict where
  "demo_task_1 = [(PStr ''id'', PInt 1), (PStr ''title'', PStr ''A'')]"

definition demo_task_b :: pydict where
  "demo_task_b = [(PStr ''id'', PStr ''b''), (PStr ''title'', PStr ''B'')]"

definition demo_task_3 :: pydict where
  "demo_task_3 = [(PStr ''id'', PInt 3)]"

definition demo_doc :: pydict where
  "demo_doc =
     [(PStr ''board'', PStr ''swarm''),
      (PStr ''tasks'', PList [PDict demo_task_1, PDict demo_task_b, PDict demo_task_3]),
      (PStr ''server_time'', PStr ''old'')]"

definition demo_status_1_text :: string where
  \<open>demo_status_1_text = ''{"state": "done", "title": "A2"}''\<close>

definition demo_status_b_text :: string where
  \<open>demo_status_b_text = ''{"state": ''\<close>

definition demo_log_line_text :: string where
  \<open>demo_log_line_text = ''{"time": "t1", "msg": "x"}''\<close>

definition demo_status_1 :: pydict where
  "demo_status_1 = [(PStr ''state'', PStr ''done''), (PStr ''title'', PStr ''A2'')]"

definition demo_loads :: "string \<Rightarrow> pyval option" where
  \<open>demo_loads s =
     (if s = demo_tasks_text then Some (PDict demo_doc)
      else if s = demo_status_1_text then Some (PDict demo_status_1)
      else if s = demo_log_line_text then
        Some (PDict [(PStr ''time'', PStr ''t1''), (PStr ''msg'', PStr ''x'')])
      else if s = ''5'' then Some (PInt 5)
      else if s = ''{}'' then Some (PDict [])
      else None)\<close>

definition demo_log_text :: string where
  \<open>demo_log_text =
     demo_log_line_text @ [CHR 0x0A] @ ''not json'' @ [CHR 0x0A] @
     ''   '' @ [CHR 0x0A] @ ''5'' @ [CHR 0x0A]\<close>

definition demo_files :: "string \<Rightarrow> file_state" where
  \<open>demo_files p =
     (if p = ''/tmp/kanban-dashboard/tasks.json'' then Content demo_tasks_text
      else if p = ''/tmp/kanban-dashboard/status/task-1.json'' then Content demo_status_1_text
      else if p = ''/tmp/kanban-dashboard/status/task-b.json'' then Content demo_status_b_text
      else if p = ''/tmp/kanban-dashboard/activity.log'' then Content demo_log_text
      else Absent)\<close>

definition demo_world :: world where
  "demo_world =
     \<lparr> files = demo_files, json_loads = demo_loads, py_repr = (\<lambda>x. []),
       now_iso = ''2024-05-01T12:00:00'', dumps_room = 990 \<rparr>"





text \<open>
  A task list with one task, and a status file for it with a given text that parses to
  a given value: an array with one pair in it, and the number 5.
\<close>

definition one_task_text :: string where
  \<open>one_task_text = ''{"tasks": [{"id": 1, "title": "A"}]}''\<close>

definition one_task_world :: "string \<Rightarrow> pyval \<Rightarrow> world" where
  "one_task_world status_text status =
     \<lparr> files = (\<lambda>p. if p = ''/tmp/kanban-dashboard/tasks.json'' then Content one_task_text
                     else if p = ''/tmp/kanban-dashboard/status/task-1.json''
                     then Content status_text
                     else Absent),
       json_loads = (\<lambda>s. if s = one_task_text
                          then Some (PDict [(PStr ''tasks'', PList [PDict demo_task_1])])
                          else if s = status_text then Some status
                          else None),
       py_repr = (\<lambda>x. []),
       now_iso = ''2024-05-01T12:00:00'',
       dumps_room = 990 \<rparr>"

text \<open>An array in an array, and so on, \<open>n\<close> times around an empty array.\<close>

primrec nested_array :: "nat \<Rightarrow> pyval" where
  "nested_array 0 = PList []"
| "nested_array (Suc n) = PList [nested_array n]"

definition pairs_status_text :: string where
  \<open>pairs_status_text = ''[["state", "done"]]''\<close>

definition pairs_world :: world where
  "pairs_world = one_task_world pairs_status_text (PList [PList [PStr ''state'', PStr ''done'']])"

definition number_world :: world where
  "number_world = one_task_world ''5'' (PInt 5)"

section \<open>Properties\<close>

subsection \<open>Dictionaries\<close>

lemma dict_get_dict_set:
  "dict_get (dict_set d k v) k' = (if hash_key k = hash_key k' then Some v else dict_get d k')"
  by (induction d) auto

lemma dict_get_append:
  "dict_get (xs @ ys) k = (case dict_get xs k of Some v \<Rightarrow> Some v | None \<Rightarrow> dict_get ys k)"
  by (induction xs) auto

lemma dict_get_update_mapping_rev:
  "dict_get (update_mapping d s) k =
     (case dict_get (rev s) k of Some v \<Rightarrow> Some v | None \<Rightarrow> dict_get d k)"
  unfolding update_mapping_def
proof (induction s arbitrary: d)
  case Nil
  then show ?case by simp
next
  case (Cons p s)
  obtain a b where p: "p = (a, b)" by (cases p)
  have app: "\<And>xs ys. dict_get (xs @ ys) k =
      (case dict_get xs k of Some v \<Rightarrow> Some v | None \<Rightarrow> dict_get ys k)"
    subgoal for xs ys by (induction xs) auto
    done
  show ?case
    by (simp add: p Cons.IH app dict_get_dict_set split: option.splits)
qed

lemma dict_get_None_iff:
  "dict_get d k = None \<longleftrightarrow> hash_key k \<notin> set (map (\<lambda>kv. hash_key (fst kv)) d)"
proof (induction d)
  case Nil
  then show ?case by simp
next
  case (Cons p d)
  obtain a b where p: "p = (a, b)" by (cases p)
  show ?case
  proof (cases "hash_key a = hash_key k")
    case True
    then show ?thesis by (simp add: p)
  next
    case False
    then have "hash_key k \<noteq> hash_key a" by metis
    with False Cons.IH show ?thesis by (simp add: p)
  qed
qed

lemma dict_get_rev:
  "dict_keys_distinct d \<Longrightarrow> dict_get (rev d) k = dict_get d k"
  unfolding dict_keys_distinct_def
proof (induction d)
  case Nil
  then show ?case by simp
next
  case (Cons p d)
  obtain a b where p: "p = (a, b)" by (cases p)
  from Cons.prems have nin: "hash_key a \<notin> set (map (\<lambda>kv. hash_key (fst kv)) d)"
    and dist: "distinct (map (\<lambda>kv. hash_key (fst kv)) d)"
    by (simp_all add: p)
  have IH: "dict_get (rev d) k = dict_get d k" using Cons.IH dist by simp
  show ?case
  proof (cases "hash_key a = hash_key k")
    case True
    with nin have "dict_get d k = None" by (simp add: dict_get_None_iff)
    with True IH show ?thesis by (simp add: p dict_get_append)
  next
    case False
    with IH show ?thesis by (simp add: p dict_get_append split: option.splits)
  qed
qed

lemma hash_key_HStr: "hash_key k = Some (HStr s) \<longleftrightarrow> k = PStr s"
proof (cases k)
  case (PFloat f)
  then show ?thesis by (cases f) auto
qed auto

lemma HStr_hash_key: "Some (HStr s) = hash_key k \<longleftrightarrow> k = PStr s"
  using hash_key_HStr [of k s] by auto

lemma keys_dict_set:
  "map fst (dict_set d k v) = map fst d @ (if dict_get d k = None then [k] else [])"
  by (induction d) (auto split: if_splits)

lemma tasks_after_server_time:
  "dict_get (dict_set (dict_set d (PStr ''tasks'') x) (PStr ''server_time'') y) (PStr ''tasks'')
     = Some x"
  by (simp add: dict_get_dict_set)

text \<open>
  A status file can parse to a value that is no object. \<^verbatim>\<open>update\<close> raises at once on a
  number, a boolean or \<^verbatim>\<open>null\<close>, and the record stays as it is. On an array it stores
  every element that is a pair of a key and a value, up to the first element that is
  none: such a file changes the record although it is no status object.
\<close>

lemma status_not_iterable_unchanged:
  assumes "status = PNone \<or> (\<exists>b. status = PBool b) \<or> (\<exists>i. status = PInt i)
     \<or> (\<exists>f. status = PFloat f)"
  shows "dict_update t status = (t, Some TypeError)"
  using assms by (auto simp: dict_update_def py_iter_def)

lemma status_pair_stored:
  assumes "hash_key k \<noteq> None"
  shows "dict_update t (PList [PList [k, v]]) = (dict_set t k v, None)"
  using assms by (auto simp: dict_update_def py_iter_def)

lemma status_pair_stored_before_error:
  assumes "hash_key k \<noteq> None"
  shows "dict_update t (PList [PList [k, v], PInt n]) = (dict_set t k v, Some TypeError)"
  using assms by (auto simp: dict_update_def py_iter_def)

subsection \<open>Paths and files\<close>

lemma TASKS_FILE_eq: "TASKS_FILE = ''/tmp/kanban-dashboard/tasks.json''"
  by (simp add: TASKS_FILE_def DASHBOARD_DIR_def path_join_def)

lemma LOG_FILE_eq: "LOG_FILE = ''/tmp/kanban-dashboard/activity.log''"
  by (simp add: LOG_FILE_def DASHBOARD_DIR_def path_join_def)

lemma STATUS_DIR_eq: "STATUS_DIR = ''/tmp/kanban-dashboard/status''"
  by (simp add: STATUS_DIR_def DASHBOARD_DIR_def path_join_def)

lemma status_file_eq: "status_file w tid = STATUS_DIR @ ''/task-'' @ py_str w tid @ ''.json''"
  by (simp add: status_file_def path_join_def STATUS_DIR_eq)

lemma json_load_Content:
  "files w p = Content s \<Longrightarrow> json_loads w s = Some v \<Longrightarrow> json_load w p = Inr v"
  by (simp add: json_load_def open_read_def)






subsection \<open>The loop over the tasks\<close>

lemma subscript_Inr:
  "subscript x k = Inr v \<longleftrightarrow> (\<exists>d. x = PDict d \<and> dict_get d (PStr k) = Some v)"
  by (cases x) (auto simp: subscript_def split: option.splits)

lemma merge_status_unchanged:
  assumes "files w sf = Absent \<or> files w sf = Unreadable
     \<or> (\<exists>c. files w sf = Content c \<and> json_loads w c = None)"
  shows "fst (merge_status w t sf) = t"
  using assms by (auto simp: merge_status_def path_exists_def json_load_def open_read_def)

lemma dict_update_nothing_stored:
  assumes "\<forall>st. v \<noteq> PDict st" and "\<forall>e es. v = PList (e # es) \<longrightarrow> \<not> storable_pair e"
  shows "fst (dict_update t v) = t"
proof (cases v)
  case (PList xs)
  show ?thesis
  proof (cases xs)
    case Nil
    with PList show ?thesis by (simp add: dict_update_def py_iter_def)
  next
    case (Cons e es)
    with PList assms(2) have "\<not> storable_pair e" by simp
    then have "fst (update_seq t (e # es)) = t"
      by (auto simp: storable_pair_def split: sum.splits list.splits option.splits)
    with PList Cons show ?thesis by (simp add: dict_update_def py_iter_def)
  qed
next
  case (PStr s)
  then show ?thesis
    by (cases s) (simp_all add: dict_update_def py_iter_def)
next
  case (PDict st)
  with assms(1) show ?thesis by simp
qed (simp_all add: dict_update_def py_iter_def)

lemma merge_status_nothing_stored:
  assumes "files w sf = Content c" and "json_loads w c = Some v"
    and "\<forall>st. v \<noteq> PDict st" and "\<forall>e es. v = PList (e # es) \<longrightarrow> \<not> storable_pair e"
  shows "fst (merge_status w t sf) = t"
  using assms(1,2) dict_update_nothing_stored [OF assms(3,4)]
  by (simp add: merge_status_def path_exists_def json_load_def open_read_def)

lemma merge_status_object:
  assumes "files w sf = Content c" and "json_loads w c = Some (PDict st)"
  shows "fst (merge_status w t sf) = update_mapping t st"
  using assms
  by (simp add: merge_status_def path_exists_def json_load_def open_read_def dict_update_def)


lemma for_tasks_result:
  "for_tasks w xs = (Inr ys, evs) \<Longrightarrow>
     list_all2 (\<lambda>x y. \<exists>t tid. x = PDict t \<and> dict_get t (PStr ''id'') = Some tid
        \<and> y = PDict (fst (merge_status w t (status_file w tid)))) xs ys"
proof (induction xs arbitrary: ys evs)
  case Nil
  then show ?case by simp
next
  case (Cons x xs)
  from Cons.prems obtain tid where sub: "subscript x ''id'' = Inr tid"
    by (cases "subscript x ''id''") auto
  then obtain t where x: "x = PDict t" and tid: "dict_get t (PStr ''id'') = Some tid"
    by (auto simp: subscript_Inr)
  obtain r evs' where rest: "for_tasks w xs = (r, evs')"
    by (cases "for_tasks w xs")
  with Cons.prems sub x obtain ys' where r: "r = Inr ys'"
    and ys: "ys = PDict (fst (merge_status w t (status_file w tid))) # ys'"
    by (cases r) (auto split: prod.splits)
  from Cons.IH rest r have "list_all2 (\<lambda>x y. \<exists>t tid. x = PDict t \<and> dict_get t (PStr ''id'') = Some tid
        \<and> y = PDict (fst (merge_status w t (status_file w tid)))) xs ys'"
    by simp
  with x tid ys show ?case by simp
qed

lemma for_tasks_valid:
  "list_all is_task xs \<Longrightarrow> \<exists>ys evs. for_tasks w xs = (Inr ys, evs)"
proof (induction xs)
  case Nil
  then show ?case by simp
next
  case (Cons x xs)
  then obtain t tid where x: "x = PDict t" and tid: "dict_get t (PStr ''id'') = Some tid"
    by (auto simp: is_task_def split: pyval.splits option.splits)
  from Cons obtain ys evs where "for_tasks w xs = (Inr ys, evs)" by auto
  with x tid show ?case
    by (auto simp: subscript_def split: prod.splits)
qed



subsection \<open>Nesting\<close>

lemma max_list_simps:
  "max_list [] = 0" "max_list (n # ns) = max n (max_list ns)"
  by (simp_all add: max_list_def)

lemma max_list_le_iff: "max_list ns \<le> b \<longleftrightarrow> (\<forall>n\<in>set ns. n \<le> b)"
  by (induction ns) (auto simp: max_list_def)











subsection \<open>Writing the response\<close>

lemma send_json_Responded:
  assumes "send_json w data = Responded r"
  shows "status_code r = 200"
    and "headers r = [(''Content-Type'', ''application/json''),
      (''Access-Control-Allow-Origin'', ''*''), (''Cache-Control'', ''no-cache'')]"
    and "body r = data"
    and "nesting data \<le> 3 + dumps_room w"
  using assms by (auto simp: send_json_def json_dumps_raises_def split: if_splits)

lemma send_json_cases:
  "send_json w data = Faulted RecursionError \<or> (\<exists>r. send_json w data = Responded r)"
  by (simp add: send_json_def)

lemma send_json_shallow:
  "nesting data \<le> 3 + dumps_room w \<Longrightarrow> \<exists>r. send_json w data = Responded r"
  by (simp add: send_json_def json_dumps_raises_def)

lemma send_json_too_deep:
  "3 + dumps_room w < nesting data \<Longrightarrow> send_json w data = Faulted RecursionError"
  by (simp add: send_json_def json_dumps_raises_def)

subsection \<open>The status handler\<close>



lemma send_status_list:
  assumes "json_load w TASKS_FILE = Inr (PDict d)"
    and "dict_get d (PStr ''tasks'') = Some (PList ts)"
    and "fst (send_status w) = Responded r"
  shows "\<exists>ts' evs. for_tasks w ts = (Inr ts', evs)
     \<and> send_json w (PDict (dict_set (dict_set d (PStr ''tasks'') (PList ts'))
                 (PStr ''server_time'') (PStr (now_iso w)))) = Responded r"
proof -
  obtain res evs where ft: "for_tasks w ts = (res, evs)" by (cases "for_tasks w ts")
  show ?thesis
  proof (cases res)
    case (Inl e)
    with assms ft show ?thesis
      by (simp add: send_status_def subscript_def py_iter_def)
  next
    case (Inr ts')
    with assms ft show ?thesis
      by (simp add: send_status_def subscript_def py_iter_def Let_def)
  qed
qed


lemma emitted_records:
  assumes "files w TASKS_FILE = Content s" and "json_loads w s = Some (PDict d)"
    and "dict_get d (PStr ''tasks'') = Some (PList ts)"
    and "fst (do_GET w ''/api/status'') = Responded r"
  shows "\<exists>ts'. body r = PDict (dict_set (dict_set d (PStr ''tasks'') (PList ts'))
                 (PStr ''server_time'') (PStr (now_iso w)))
     \<and> length ts' = length ts
     \<and> (\<forall>i<length ts. \<exists>t tid. ts ! i = PDict t \<and> dict_get t (PStr ''id'') = Some tid
          \<and> ts' ! i = PDict (fst (merge_status w t (status_file w tid))))"
proof -
  from assms(1,2) have "json_load w TASKS_FILE = Inr (PDict d)" by (rule json_load_Content)
  moreover from assms(4) have "fst (send_status w) = Responded r" by (simp add: do_GET_def)
  ultimately obtain ts' evs where ft: "for_tasks w ts = (Inr ts', evs)"
    and r: "send_json w (PDict (dict_set (dict_set d (PStr ''tasks'') (PList ts'))
                 (PStr ''server_time'') (PStr (now_iso w)))) = Responded r"
    using send_status_list [OF _ assms(3)] by blast
  from for_tasks_result [OF ft] have "length ts' = length ts"
    and "\<forall>i<length ts. \<exists>t tid. ts ! i = PDict t \<and> dict_get t (PStr ''id'') = Some tid
          \<and> ts' ! i = PDict (fst (merge_status w t (status_file w tid)))"
    by (auto simp: list_all2_conv_all_nth)
  with send_json_Responded(3) [OF r] show ?thesis by auto
qed

lemma for_tasks_Inr_is_task:
  assumes "for_tasks w xs = (Inr ys, evs)"
  shows "list_all is_task xs"
proof -
  from for_tasks_result [OF assms]
  have "\<forall>i<length xs. \<exists>t tid. xs ! i = PDict t \<and> dict_get t (PStr ''id'') = Some tid"
    by (auto simp: list_all2_conv_all_nth)
  then have "\<forall>i<length xs. is_task (xs ! i)"
    by (auto simp: is_task_def)
  then show ?thesis by (simp add: list_all_length)
qed

lemma subscript_Inl: "subscript x k = Inl e \<Longrightarrow> e = KeyError \<or> e = TypeError"
  by (cases x) (auto simp: subscript_def split: option.splits)

lemma py_iter_Inl: "py_iter x = Inl e \<Longrightarrow> e = TypeError"
  by (cases x) (auto simp: py_iter_def)

lemma for_tasks_Inl:
  "for_tasks w xs = (Inl e, evs) \<Longrightarrow> e = KeyError \<or> e = TypeError"
proof (induction xs arbitrary: evs)
  case Nil
  then show ?case by simp
next
  case (Cons x xs)
  show ?case
  proof (cases "subscript x ''id''")
    case (Inl err)
    with Cons.prems subscript_Inl [OF Inl] show ?thesis by simp
  next
    case (Inr tid)
    then obtain t where x: "x = PDict t" by (auto simp: subscript_Inr)
    obtain res evs' where rest: "for_tasks w xs = (res, evs')" by (cases "for_tasks w xs")
    with Cons.prems Inr x obtain e' where "res = Inl e'" and "e' = e"
      by (cases res) (auto split: prod.splits)
    with rest Cons.IH show ?thesis by blast
  qed
qed

text \<open>
  When the task list has been loaded, the handler gets as far as \<^verbatim>\<open>send_json\<close> (and then
  answers, or ends with the \<^verbatim>\<open>RecursionError\<close> of \<^verbatim>\<open>json.dumps\<close>) exactly if the loaded
  value is a dictionary whose \<^verbatim>\<open>tasks\<close> can be iterated and has only task records as
  elements; in every other case it ends with a \<^verbatim>\<open>KeyError\<close> or a \<^verbatim>\<open>TypeError\<close>.
\<close>

lemma send_status_reaches_send_json_iff:
  assumes "json_load w TASKS_FILE = Inr data"
  shows "(fst (send_status w) = Faulted RecursionError \<or> (\<exists>r. fst (send_status w) = Responded r))
     \<longleftrightarrow>
     (\<exists>d tasks elems. data = PDict d \<and> dict_get d (PStr ''tasks'') = Some tasks
        \<and> py_iter tasks = Inr elems \<and> list_all is_task elems)"
    (is "?reached \<longleftrightarrow> ?shape")
proof
  assume reached: ?reached
  have no_sub: False if "subscript data ''tasks'' = Inl e" for e
    using that reached assms subscript_Inl [OF that] by (auto simp: send_status_def)
  then obtain tasks where sub: "subscript data ''tasks'' = Inr tasks"
    by (cases "subscript data ''tasks''") auto
  then obtain d where d: "data = PDict d" "dict_get d (PStr ''tasks'') = Some tasks"
    by (auto simp: subscript_Inr)
  have no_it: False if "py_iter tasks = Inl e" for e
    using that reached assms sub py_iter_Inl [OF that] by (auto simp: send_status_def)
  then obtain elems where it: "py_iter tasks = Inr elems"
    by (cases "py_iter tasks") auto
  obtain res evs where ft: "for_tasks w elems = (res, evs)" by (cases "for_tasks w elems")
  have no_ft: False if "res = Inl e" for e
    using that reached assms sub it ft for_tasks_Inl [of w elems e evs]
    by (auto simp: send_status_def)
  then obtain ys where "res = Inr ys" by (cases res) auto
  with ft have "list_all is_task elems" by (auto dest: for_tasks_Inr_is_task)
  with d it show ?shape by blast
next
  assume ?shape
  then obtain d tasks elems where d: "data = PDict d"
    and t: "dict_get d (PStr ''tasks'') = Some tasks"
    and it: "py_iter tasks = Inr elems" and v: "list_all is_task elems"
    by blast
  from for_tasks_valid [OF v] obtain ys evs where "for_tasks w elems = (Inr ys, evs)" by blast
  with assms d t it obtain x where "fst (send_status w) = send_json w x"
    by (simp add: send_status_def subscript_def Let_def)
  with send_json_cases [of w x] show ?reached by auto
qed


lemma not_an_object_faults:
  assumes "json_load w TASKS_FILE = Inr data" and "\<forall>d. data \<noteq> PDict d"
  shows "fst (send_status w) = Faulted TypeError"
  using assms by (cases data) (simp_all add: send_status_def subscript_def)

lemma tasks_not_iterable_faults:
  assumes "json_load w TASKS_FILE = Inr (PDict d)"
    and "dict_get d (PStr ''tasks'') = Some tasks"
    and "tasks = PNone \<or> (\<exists>b. tasks = PBool b) \<or> (\<exists>i. tasks = PInt i) \<or> (\<exists>f. tasks = PFloat f)"
  shows "fst (send_status w) = Faulted TypeError"
  using assms by (auto simp: send_status_def subscript_def py_iter_def)

lemma record_without_id_faults:
  assumes "json_load w TASKS_FILE = Inr (PDict d)"
    and "dict_get d (PStr ''tasks'') = Some (PList (PDict t # rest))"
    and "dict_get t (PStr ''id'') = None"
  shows "fst (send_status w) = Faulted KeyError"
  using assms by (simp add: send_status_def subscript_def py_iter_def)


subsection \<open>How deep the status document is nested\<close>






subsection \<open>The log handler\<close>

lemma for_lines_eq:
  "for_lines w ls acc = acc @ map (log_entry w) (filter (\<lambda>l. l \<noteq> []) (map strip ls))"
  by (induction ls arbitrary: acc) (auto simp: Let_def)

lemma for_lines_lines:
  "for_lines w ls [] =
     map (\<lambda>l. log_entry w (strip l)) (filter (\<lambda>l. strip l \<noteq> []) ls)"
  by (simp add: for_lines_eq filter_map comp_def)

lemma length_last_n: "length (last_n n xs) \<le> n"
  by (simp add: last_n_def)

lemma last_n_suffix: "\<exists>older. xs = older @ last_n n xs"
  by (metis last_n_def append_take_drop_id)

lemma length_last_n_min: "length (last_n n xs) = min n (length xs)"
  by (simp add: last_n_def)

lemma send_log_content:
  assumes "files w LOG_FILE = Content c"
  shows "fst (do_GET w ''/api/log'') =
     send_json w (PDict [(PStr ''entries'',
       PList (map (\<lambda>l. log_entry w (strip l))
                (filter (\<lambda>l. strip l \<noteq> []) (last_n 50 (readlines c)))))])"
  using assms
  by (simp add: do_GET_def send_log_def path_exists_def open_read_def for_lines_lines)

lemma send_log_no_content:
  assumes "files w LOG_FILE = Absent \<or> files w LOG_FILE = Unreadable"
  shows "fst (do_GET w ''/api/log'') = send_json w (PDict [(PStr ''entries'', PList [])])"
  using assms by (auto simp: do_GET_def send_log_def path_exists_def open_read_def)


lemma entries_nesting:
  "nesting (PDict [(PStr ''entries'', PList es)]) \<le> 3 + n \<longleftrightarrow> (\<forall>e\<in>set es. nesting e \<le> Suc n)"
  by (simp add: max_list_simps max_list_le_iff)



lemma send_log_too_deep:
  assumes "files w LOG_FILE = Content c" and "l \<in> set (last_n 50 (readlines c))"
    and "strip l \<noteq> []" and "json_loads w (strip l) = Some v"
    and "Suc (dumps_room w) < nesting v"
  shows "fst (do_GET w ''/api/log'') = Faulted RecursionError"
proof -
  let ?es = "map (\<lambda>l. log_entry w (strip l))
                (filter (\<lambda>l. strip l \<noteq> []) (last_n 50 (readlines c)))"
  from assms(2,3) have "l \<in> set (filter (\<lambda>l. strip l \<noteq> []) (last_n 50 (readlines c)))"
    by simp
  then have "log_entry w (strip l) \<in> set ?es" by (auto intro!: image_eqI [where x = l])
  with assms(4) have "v \<in> set ?es" by (simp add: log_entry_def)
  with assms(5) have "\<not> (\<forall>e\<in>set ?es. nesting e \<le> Suc (dumps_room w))"
    by (meson not_le)
  then have "3 + dumps_room w < nesting (PDict [(PStr ''entries'', PList ?es)])"
    by (simp only: entries_nesting [symmetric] not_le)
  from send_json_too_deep [OF this] send_log_content [OF assms(1)] show ?thesis by simp
qed


subsection \<open>The example directory\<close>

lemma demo_files_simps:
  "files demo_world = demo_files" "json_loads demo_world = demo_loads"
  "now_iso demo_world = ''2024-05-01T12:00:00''" "dumps_room demo_world = 990"
  by (simp_all add: demo_world_def)

lemma demo_tasks_file:
  "files demo_world TASKS_FILE = Content demo_tasks_text"
  "json_loads demo_world demo_tasks_text = Some (PDict demo_doc)"
  "dict_get demo_doc (PStr ''tasks'')
     = Some (PList [PDict demo_task_1, PDict demo_task_b, PDict demo_task_3])"
  by (simp_all add: demo_files_simps demo_files_def demo_loads_def TASKS_FILE_eq demo_doc_def)

lemma demo_task_ids:
  "dict_get demo_task_1 (PStr ''id'') = Some (PInt 1)"
  "dict_get demo_task_b (PStr ''id'') = Some (PStr ''b'')"
  "dict_get demo_task_3 (PStr ''id'') = Some (PInt 3)"
  by (simp_all add: demo_task_1_def demo_task_b_def demo_task_3_def)

lemma status_file_1: "status_file w (PInt 1) = ''/tmp/kanban-dashboard/status/task-1.json''"
  by (simp add: status_file_eq STATUS_DIR_eq py_str_def str_int_def str_nat.simps digit_def)

lemma status_file_b: "status_file w (PStr ''b'') = ''/tmp/kanban-dashboard/status/task-b.json''"
  by (simp add: status_file_eq STATUS_DIR_eq py_str_def)

lemma status_file_3: "status_file w (PInt 3) = ''/tmp/kanban-dashboard/status/task-3.json''"
  by (simp add: status_file_eq STATUS_DIR_eq py_str_def str_int_def str_nat.simps digit_def)

lemma demo_merge_1:
  "merge_status demo_world demo_task_1 ''/tmp/kanban-dashboard/status/task-1.json''
   = ([(PStr ''id'', PInt 1), (PStr ''title'', PStr ''A2''), (PStr ''state'', PStr ''done'')],
      [Exists ''/tmp/kanban-dashboard/status/task-1.json'',
       Open ''/tmp/kanban-dashboard/status/task-1.json''])"
  by (simp add: merge_status_def path_exists_def json_load_def open_read_def demo_files_simps
      demo_files_def demo_loads_def demo_tasks_text_def demo_status_1_text_def dict_update_def
      update_mapping_def demo_task_1_def demo_status_1_def)

lemma demo_merge_b:
  "merge_status demo_world demo_task_b ''/tmp/kanban-dashboard/status/task-b.json''
   = (demo_task_b,
      [Exists ''/tmp/kanban-dashboard/status/task-b.json'',
       Open ''/tmp/kanban-dashboard/status/task-b.json''])"
  by (simp add: merge_status_def path_exists_def json_load_def open_read_def demo_files_simps
      demo_files_def demo_loads_def demo_tasks_text_def demo_status_1_text_def
      demo_status_b_text_def demo_log_line_text_def)

lemma demo_merge_3:
  "merge_status demo_world demo_task_3 ''/tmp/kanban-dashboard/status/task-3.json''
   = (demo_task_3, [Exists ''/tmp/kanban-dashboard/status/task-3.json''])"
  by (simp add: merge_status_def path_exists_def demo_files_simps demo_files_def)

lemma demo_status_run:
  "\<exists>r. do_GET demo_world ''/api/status'' =
     (Responded r,
      [Open ''/tmp/kanban-dashboard/tasks.json'',
       Exists ''/tmp/kanban-dashboard/status/task-1.json'',
       Open ''/tmp/kanban-dashboard/status/task-1.json'',
       Exists ''/tmp/kanban-dashboard/status/task-b.json'',
       Open ''/tmp/kanban-dashboard/status/task-b.json'',
       Exists ''/tmp/kanban-dashboard/status/task-3.json''])
   \<and> body r = PDict
        [(PStr ''board'', PStr ''swarm''),
         (PStr ''tasks'', PList
            [PDict [(PStr ''id'', PInt 1), (PStr ''title'', PStr ''A2''),
                    (PStr ''state'', PStr ''done'')],
             PDict demo_task_b, PDict demo_task_3]),
         (PStr ''server_time'', PStr ''2024-05-01T12:00:00'')]"
proof -
  have load: "json_load demo_world ''/tmp/kanban-dashboard/tasks.json'' = Inr (PDict demo_doc)"
    using json_load_Content [OF demo_tasks_file(1,2)] by (simp add: TASKS_FILE_eq)
  have loop: "for_tasks demo_world [PDict demo_task_1, PDict demo_task_b, PDict demo_task_3]
      = (Inr [PDict [(PStr ''id'', PInt 1), (PStr ''title'', PStr ''A2''),
                     (PStr ''state'', PStr ''done'')],
              PDict demo_task_b, PDict demo_task_3],
         [Exists ''/tmp/kanban-dashboard/status/task-1.json'',
          Open ''/tmp/kanban-dashboard/status/task-1.json'',
          Exists ''/tmp/kanban-dashboard/status/task-b.json'',
          Open ''/tmp/kanban-dashboard/status/task-b.json'',
          Exists ''/tmp/kanban-dashboard/status/task-3.json''])"
    by (simp add: subscript_def demo_task_ids status_file_1 status_file_b
        status_file_3 demo_merge_1 demo_merge_b demo_merge_3)
  have deep: "\<not> json_dumps_raises demo_world (PDict
        [(PStr ''board'', PStr ''swarm''),
         (PStr ''tasks'', PList
            [PDict [(PStr ''id'', PInt 1), (PStr ''title'', PStr ''A2''),
                    (PStr ''state'', PStr ''done'')],
             PDict demo_task_b, PDict demo_task_3]),
         (PStr ''server_time'', PStr ''2024-05-01T12:00:00'')])"
    by (simp add: json_dumps_raises_def demo_files_simps max_list_simps demo_task_b_def
        demo_task_3_def)
  show ?thesis
    by (simp add: do_GET_def send_status_def TASKS_FILE_eq load subscript_def py_iter_def
        demo_tasks_file(3) loop demo_files_simps demo_doc_def send_json_def deep
        del: for_tasks.simps nesting.simps)
qed

lemma demo_status_responds:
  "\<exists>r. fst (do_GET demo_world ''/api/status'') = Responded r"
  using demo_status_run by auto

lemma demo_log_file: "files demo_world LOG_FILE = Content demo_log_text"
  by (simp add: demo_files_simps demo_files_def LOG_FILE_eq)

lemma demo_readlines:
  "readlines demo_log_text =
     [demo_log_line_text @ [CHR 0x0A], ''not json'' @ [CHR 0x0A], ''   '' @ [CHR 0x0A],
      ''5'' @ [CHR 0x0A]]"
  by (simp add: demo_log_text_def demo_log_line_text_def)

lemma demo_strip:
  "strip (demo_log_line_text @ [CHR 0x0A]) = demo_log_line_text"
  "strip (''not json'' @ [CHR 0x0A]) = ''not json''"
  "strip (''   '' @ [CHR 0x0A]) = []"
  "strip (''5'' @ [CHR 0x0A]) = ''5''"
  by (simp_all add: strip_def is_space_def demo_log_line_text_def)

lemma demo_log_entries:
  "log_entry demo_world demo_log_line_text
     = PDict [(PStr ''time'', PStr ''t1''), (PStr ''msg'', PStr ''x'')]"
  "log_entry demo_world ''not json''
     = PDict [(PStr ''message'', PStr ''not json''), (PStr ''time'', PStr [])]"
  "log_entry demo_world ''5'' = PInt 5"
  by (simp_all add: log_entry_def demo_files_simps demo_loads_def demo_tasks_text_def
      demo_status_1_text_def demo_log_line_text_def)

lemma demo_log_run:
  "\<exists>r. fst (do_GET demo_world ''/api/log'') = Responded r
   \<and> body r = PDict [(PStr ''entries'', PList
       [PDict [(PStr ''time'', PStr ''t1''), (PStr ''msg'', PStr ''x'')],
        PDict [(PStr ''message'', PStr ''not json''), (PStr ''time'', PStr [])],
        PInt 5])]"
proof -
  have "demo_log_line_text \<noteq> []" by (simp add: demo_log_line_text_def)
  then have out: "fst (do_GET demo_world ''/api/log'') =
     send_json demo_world (PDict [(PStr ''entries'', PList
       [PDict [(PStr ''time'', PStr ''t1''), (PStr ''msg'', PStr ''x'')],
        PDict [(PStr ''message'', PStr ''not json''), (PStr ''time'', PStr [])],
        PInt 5])])"
    by (simp add: send_log_content [OF demo_log_file] demo_readlines last_n_def demo_strip
        demo_log_entries del: append.simps)
  have "nesting (PDict [(PStr ''entries'', PList
       [PDict [(PStr ''time'', PStr ''t1''), (PStr ''msg'', PStr ''x'')],
        PDict [(PStr ''message'', PStr ''not json''), (PStr ''time'', PStr [])],
        PInt 5])]) \<le> 3 + dumps_room demo_world"
    by (simp add: max_list_simps)
  from send_json_shallow [OF this] obtain r where
    r: "send_json demo_world (PDict [(PStr ''entries'', PList
       [PDict [(PStr ''time'', PStr ''t1''), (PStr ''msg'', PStr ''x'')],
        PDict [(PStr ''message'', PStr ''not json''), (PStr ''time'', PStr [])],
        PInt 5])]) = Responded r" ..
  with out send_json_Responded(3) [OF r] show ?thesis by simp
qed


text \<open>The directory with one task, for a status file that parses to \<open>status\<close>.\<close>

lemma one_task_run:
  assumes "status_text \<noteq> one_task_text"
  shows "fst (do_GET (one_task_world status_text status) ''/api/status'') =
     send_json (one_task_world status_text status)
       (PDict [(PStr ''tasks'', PList [PDict (fst (dict_update demo_task_1 status))]),
               (PStr ''server_time'', PStr ''2024-05-01T12:00:00'')])"
  using assms
  by (simp add: do_GET_def send_status_def TASKS_FILE_eq json_load_def open_read_def
      one_task_world_def subscript_def py_iter_def demo_task_ids
      status_file_1 merge_status_def path_exists_def)

lemma one_task_files:
  "files (one_task_world status_text status) TASKS_FILE = Content one_task_text"
  "json_loads (one_task_world status_text status) one_task_text
     = Some (PDict [(PStr ''tasks'', PList [PDict demo_task_1])])"
  "files (one_task_world status_text status) (status_file w' (PInt 1)) = Content status_text"
  "status_text \<noteq> one_task_text \<Longrightarrow>
     json_loads (one_task_world status_text status) status_text = Some status"
  by (simp_all add: one_task_world_def TASKS_FILE_eq status_file_1)

text \<open>
  A status object can hold a value that is nested deep. The parser has accepted it, the
  merge succeeds, and \<^verbatim>\<open>json.dumps\<close> raises on the merged document: the directory with
  one task is not answered.
\<close>

lemma nesting_nested_array: "nesting (nested_array n) = Suc n"
  by (induction n) (simp_all add: max_list_simps)

lemma status_too_deep:
  assumes "status_text \<noteq> one_task_text"
  shows "fst (do_GET (one_task_world status_text (PDict [(PStr ''trace'', nested_array 990)]))
            ''/api/status'')
     = Faulted RecursionError"
proof -
  let ?w = "one_task_world status_text (PDict [(PStr ''trace'', nested_array 990)])"
  have "fst (dict_update demo_task_1 (PDict [(PStr ''trace'', nested_array 990)]))
      = [(PStr ''id'', PInt 1), (PStr ''title'', PStr ''A''), (PStr ''trace'', nested_array 990)]"
    by (simp add: dict_update_def update_mapping_def demo_task_1_def)
  with one_task_run [OF assms, of "PDict [(PStr ''trace'', nested_array 990)]"]
  have run: "fst (do_GET ?w ''/api/status'') =
     send_json ?w
       (PDict [(PStr ''tasks'', PList [PDict [(PStr ''id'', PInt 1), (PStr ''title'', PStr ''A''),
                                             (PStr ''trace'', nested_array 990)]]),
               (PStr ''server_time'', PStr ''2024-05-01T12:00:00'')])"
    by simp
  have "dumps_room ?w = 990" by (simp add: one_task_world_def)
  then have "3 + dumps_room ?w
      < nesting (PDict [(PStr ''tasks'', PList [PDict [(PStr ''id'', PInt 1),
                    (PStr ''title'', PStr ''A''), (PStr ''trace'', nested_array 990)]]),
               (PStr ''server_time'', PStr ''2024-05-01T12:00:00'')])"
    by (simp add: max_list_simps nesting_nested_array)
  from send_json_too_deep [OF this] run show ?thesis by simp
qed

section \<open>The claims\<close>





text \<open>
  Claim C2, amended. A task record is emitted by \<^verbatim>\<open>GET /api/status\<close> as it stands in the
  task list, at its place in the list, when its status file is absent, cannot be read,
  is a text that \<^verbatim>\<open>json.load\<close> rejects, or parses to a value that is no object and no
  array beginning with a key and value pair (a number, a string, a boolean, \<^verbatim>\<open>null\<close>, an
  empty array, an array whose first element \<^verbatim>\<open>update\<close> cannot store).
\<close>

theorem status_file_unusable_record_unchanged:
  assumes "files w TASKS_FILE = Content s" and "json_loads w s = Some (PDict d)"
    and "dict_get d (PStr ''tasks'') = Some (PList ts)"
    and "i < length ts" and "ts ! i = PDict t" and "dict_get t (PStr ''id'') = Some tid"
    and "files w (status_file w tid) = Absent \<or> files w (status_file w tid) = Unreadable
       \<or> (\<exists>c. files w (status_file w tid) = Content c \<and> json_loads w c = None)
       \<or> (\<exists>c v. files w (status_file w tid) = Content c \<and> json_loads w c = Some v
             \<and> (\<forall>st. v \<noteq> PDict st) \<and> (\<forall>e es. v = PList (e # es) \<longrightarrow> \<not> storable_pair e))"
    and "fst (do_GET w ''/api/status'') = Responded r"
  shows "\<exists>d' ts'. body r = PDict d' \<and> dict_get d' (PStr ''tasks'') = Some (PList ts')
     \<and> length ts' = length ts \<and> ts' ! i = PDict t"
proof -
  from emitted_records [OF assms(1,2,3,8)] obtain ts' where
    b: "body r = PDict (dict_set (dict_set d (PStr ''tasks'') (PList ts'))
                 (PStr ''server_time'') (PStr (now_iso w)))"
    and len: "length ts' = length ts"
    and nth: "\<forall>i<length ts. \<exists>t tid. ts ! i = PDict t \<and> dict_get t (PStr ''id'') = Some tid
          \<and> ts' ! i = PDict (fst (merge_status w t (status_file w tid)))"
    by blast
  from nth assms(4,5,6) have "ts' ! i = PDict (fst (merge_status w t (status_file w tid)))"
    by auto
  moreover have "fst (merge_status w t (status_file w tid)) = t"
    using assms(7) merge_status_unchanged [of w "status_file w tid" t]
      merge_status_nothing_stored [of w "status_file w tid" _ _ t]
    by blast
  ultimately have "ts' ! i = PDict t" by simp
  with b len show ?thesis by (simp add: tasks_after_server_time)
qed

text \<open>
  The second task of the example has a truncated status file and the third task has
  none; the status file of the directory with one task is the number 5.
\<close>

theorem status_file_unusable_record_unchanged_witness:
  "files demo_world (status_file demo_world (PStr ''b'')) = Content demo_status_b_text
   \<and> json_loads demo_world demo_status_b_text = None
   \<and> files demo_world (status_file demo_world (PInt 3)) = Absent
   \<and> (\<exists>r d' ts'. fst (do_GET demo_world ''/api/status'') = Responded r
        \<and> body r = PDict d' \<and> dict_get d' (PStr ''tasks'') = Some (PList ts')
        \<and> length ts' = 3 \<and> ts' ! 1 = PDict demo_task_b \<and> ts' ! 2 = PDict demo_task_3)
   \<and> files number_world (status_file number_world (PInt 1)) = Content ''5''
   \<and> json_loads number_world ''5'' = Some (PInt 5)
   \<and> (\<exists>r d' ts'. fst (do_GET number_world ''/api/status'') = Responded r
        \<and> body r = PDict d' \<and> dict_get d' (PStr ''tasks'') = Some (PList ts')
        \<and> length ts' = 1 \<and> ts' ! 0 = PDict demo_task_1)"
proof -
  have truncated: "files demo_world (status_file demo_world (PStr ''b'')) = Content demo_status_b_text"
    "json_loads demo_world demo_status_b_text = None"
    by (simp_all add: status_file_b demo_files_simps demo_files_def demo_loads_def
        demo_tasks_text_def demo_status_1_text_def demo_status_b_text_def demo_log_line_text_def)
  have absent: "files demo_world (status_file demo_world (PInt 3)) = Absent"
    by (simp add: status_file_3 demo_files_simps demo_files_def)
  from demo_status_responds obtain r where
    r: "fst (do_GET demo_world ''/api/status'') = Responded r" ..
  have ne: "''5'' \<noteq> one_task_text" by (simp add: one_task_text_def)
  have number: "files number_world (status_file number_world (PInt 1)) = Content ''5''"
    "json_loads number_world ''5'' = Some (PInt 5)"
    using one_task_files(3,4) [of "''5''" "PInt 5"] ne by (simp_all add: number_world_def)
  have tasks: "files number_world TASKS_FILE = Content one_task_text"
    "json_loads number_world one_task_text = Some (PDict [(PStr ''tasks'', PList [PDict demo_task_1])])"
    "dict_get [(PStr ''tasks'', PList [PDict demo_task_1])] (PStr ''tasks'')
       = Some (PList [PDict demo_task_1])"
    using one_task_files(1,2) [of "''5''" "PInt 5"] by (simp_all add: number_world_def)
  have "nesting (PDict [(PStr ''tasks'', PList [PDict (fst (dict_update demo_task_1 (PInt 5)))]),
               (PStr ''server_time'', PStr ''2024-05-01T12:00:00'')]) \<le> 3 + dumps_room number_world"
    by (simp add: dict_update_def py_iter_def demo_task_1_def max_list_simps)
  from send_json_shallow [OF this] one_task_run [OF ne, of "PInt 5"] obtain r5 where
    r5: "fst (do_GET number_world ''/api/status'') = Responded r5"
    by (auto simp: number_world_def)
  have plain: "\<forall>st. PInt 5 \<noteq> PDict st" "\<forall>e es. PInt 5 = PList (e # es) \<longrightarrow> \<not> storable_pair e"
    by simp_all
  from status_file_unusable_record_unchanged
    [OF demo_tasks_file _ _ demo_task_ids(2) _ r, of 1]
    status_file_unusable_record_unchanged
    [OF demo_tasks_file _ _ demo_task_ids(3) _ r, of 2]
    status_file_unusable_record_unchanged
    [OF tasks _ _ demo_task_ids(1) _ r5, of 0]
    truncated absent r number r5 plain
  show ?thesis by (auto simp: numeral_3_eq_3)
qed

text \<open>
  Claim C2 as stated fails: the status file \<^verbatim>\<open>[["state", "done"]]\<close> parses, but not as the
  object it is meant to be; \<^verbatim>\<open>update\<close> takes the array for a sequence of key and value
  pairs, and the record \<^verbatim>\<open>{"id": 1, "title": "A"}\<close> is emitted with a \<^verbatim>\<open>state\<close> added.
\<close>

theorem status_array_alters_record_counterexample:
  "demo_task_1 = [(PStr ''id'', PInt 1), (PStr ''title'', PStr ''A'')]
   \<and> json_loads pairs_world one_task_text = Some (PDict [(PStr ''tasks'', PList [PDict demo_task_1])])
   \<and> files pairs_world ''/tmp/kanban-dashboard/status/task-1.json'' = Content pairs_status_text
   \<and> json_loads pairs_world pairs_status_text = Some (PList [PList [PStr ''state'', PStr ''done'']])
   \<and> fst (do_GET pairs_world ''/api/status'') =
       Responded
         \<lparr> status_code = 200,
           headers = [(''Content-Type'', ''application/json''),
                      (''Access-Control-Allow-Origin'', ''*''),
                      (''Cache-Control'', ''no-cache'')],
           body = PDict
             [(PStr ''tasks'', PList [PDict [(PStr ''id'', PInt 1), (PStr ''title'', PStr ''A''),
                                             (PStr ''state'', PStr ''done'')]]),
              (PStr ''server_time'', PStr ''2024-05-01T12:00:00'')] \<rparr>"
proof -
  have ne: "pairs_status_text \<noteq> one_task_text"
    by (simp add: pairs_status_text_def one_task_text_def)
  have "fst (do_GET pairs_world ''/api/status'') =
     send_json pairs_world
       (PDict [(PStr ''tasks'', PList [PDict [(PStr ''id'', PInt 1), (PStr ''title'', PStr ''A''),
                                             (PStr ''state'', PStr ''done'')]]),
               (PStr ''server_time'', PStr ''2024-05-01T12:00:00'')])"
    using one_task_run [OF ne, of "PList [PList [PStr ''state'', PStr ''done'']]"]
    by (simp add: pairs_world_def dict_update_def py_iter_def demo_task_1_def)
  moreover have "dumps_room pairs_world = 990"
    by (simp add: pairs_world_def one_task_world_def)
  ultimately have run: "fst (do_GET pairs_world ''/api/status'') =
       Responded
         \<lparr> status_code = 200,
           headers = [(''Content-Type'', ''application/json''),
                      (''Access-Control-Allow-Origin'', ''*''),
                      (''Cache-Control'', ''no-cache'')],
           body = PDict
             [(PStr ''tasks'', PList [PDict [(PStr ''id'', PInt 1), (PStr ''title'', PStr ''A''),
                                             (PStr ''state'', PStr ''done'')]]),
              (PStr ''server_time'', PStr ''2024-05-01T12:00:00'')] \<rparr>"
    by (simp add: send_json_def json_dumps_raises_def max_list_simps)
  have "files pairs_world ''/tmp/kanban-dashboard/status/task-1.json'' = Content pairs_status_text"
    "json_loads pairs_world pairs_status_text = Some (PList [PList [PStr ''state'', PStr ''done'']])"
    "json_loads pairs_world one_task_text = Some (PDict [(PStr ''tasks'', PList [PDict demo_task_1])])"
    using ne by (simp_all add: pairs_world_def one_task_world_def)
  with run show ?thesis by (simp add: demo_task_1_def)
qed


text \<open>
  Claim C3. A task record whose status file exists and parses as a JSON object is emitted
  with the fields of the status object stored over its own: every key of the status
  object has the status object's value, every other key keeps the record's value.
\<close>

theorem status_file_object_merged:
  assumes "files w TASKS_FILE = Content s" and "json_loads w s = Some (PDict d)"
    and "dict_get d (PStr ''tasks'') = Some (PList ts)"
    and "i < length ts" and "ts ! i = PDict t" and "dict_get t (PStr ''id'') = Some tid"
    and "files w (status_file w tid) = Content c" and "json_loads w c = Some (PDict st)"
    and "dict_keys_distinct st"
    and "fst (do_GET w ''/api/status'') = Responded r"
  shows "\<exists>d' ts' t'. body r = PDict d' \<and> dict_get d' (PStr ''tasks'') = Some (PList ts')
     \<and> length ts' = length ts \<and> ts' ! i = PDict t' \<and> t' = update_mapping t st
     \<and> (\<forall>k. dict_get t' k = (case dict_get st k of Some v \<Rightarrow> Some v | None \<Rightarrow> dict_get t k))"
proof -
  from emitted_records [OF assms(1,2,3,10)] obtain ts' where
    b: "body r = PDict (dict_set (dict_set d (PStr ''tasks'') (PList ts'))
                 (PStr ''server_time'') (PStr (now_iso w)))"
    and len: "length ts' = length ts"
    and nth: "\<forall>i<length ts. \<exists>t tid. ts ! i = PDict t \<and> dict_get t (PStr ''id'') = Some tid
          \<and> ts' ! i = PDict (fst (merge_status w t (status_file w tid)))"
    by blast
  from nth assms(4,5,6) have "ts' ! i = PDict (fst (merge_status w t (status_file w tid)))"
    by auto
  with merge_status_object [OF assms(7,8)] have "ts' ! i = PDict (update_mapping t st)" by simp
  moreover have "\<forall>k. dict_get (update_mapping t st) k =
      (case dict_get st k of Some v \<Rightarrow> Some v | None \<Rightarrow> dict_get t k)"
    by (simp add: dict_get_update_mapping_rev dict_get_rev [OF assms(9)])
  ultimately show ?thesis using b len by (simp add: tasks_after_server_time)
qed

text \<open>The first task of the example: its title is overridden and a state is added.\<close>

theorem status_file_object_merged_witness:
  "files demo_world (status_file demo_world (PInt 1)) = Content demo_status_1_text
   \<and> (\<exists>r d' ts'. fst (do_GET demo_world ''/api/status'') = Responded r
        \<and> body r = PDict d' \<and> dict_get d' (PStr ''tasks'') = Some (PList ts')
        \<and> length ts' = 3
        \<and> ts' ! 0 = PDict [(PStr ''id'', PInt 1), (PStr ''title'', PStr ''A2''),
                             (PStr ''state'', PStr ''done'')])"
proof -
  have sfile: "files demo_world (status_file demo_world (PInt 1))
      = Content demo_status_1_text"
    by (simp add: status_file_1 demo_files_simps demo_files_def)
  have loads: "json_loads demo_world demo_status_1_text = Some (PDict demo_status_1)"
    by (simp add: demo_files_simps demo_loads_def demo_tasks_text_def demo_status_1_text_def)
  have dist: "dict_keys_distinct demo_status_1"
    by (simp add: dict_keys_distinct_def demo_status_1_def)
  have upd: "update_mapping demo_task_1 demo_status_1
      = [(PStr ''id'', PInt 1), (PStr ''title'', PStr ''A2''), (PStr ''state'', PStr ''done'')]"
    by (simp add: update_mapping_def demo_task_1_def demo_status_1_def)
  from demo_status_responds obtain r where
    r: "fst (do_GET demo_world ''/api/status'') = Responded r" ..
  from status_file_object_merged
    [OF demo_tasks_file _ _ demo_task_ids(1) sfile loads dist r, of 0] sfile r upd
  show ?thesis by auto
qed


text \<open>
  Claim C4. For a task-list document with a list of tasks, the document of the response
  of \<^verbatim>\<open>GET /api/status\<close> has the top-level keys of the original in their order, followed by
  \<^verbatim>\<open>server_time\<close> if the original had none; every field other than \<^verbatim>\<open>tasks\<close> and
  \<^verbatim>\<open>server_time\<close> keeps its value; \<^verbatim>\<open>server_time\<close> is the current time, added or
  overwritten; and \<^verbatim>\<open>tasks\<close> has as many records as before, the record at each position
  being the original record of that position (a record with an \<^verbatim>\<open>id\<close>: the document is
  valid) after the merge of its own status file.
\<close>

theorem status_document_frame:
  assumes "files w TASKS_FILE = Content s" and "json_loads w s = Some (PDict d)"
    and "dict_get d (PStr ''tasks'') = Some (PList ts)"
    and "fst (do_GET w ''/api/status'') = Responded r"
  shows "\<exists>d' ts'. body r = PDict d'
     \<and> map fst d' = map fst d @ (if dict_get d (PStr ''server_time'') = None
                                   then [PStr ''server_time''] else [])
     \<and> (\<forall>k. k \<noteq> PStr ''tasks'' \<and> k \<noteq> PStr ''server_time'' \<longrightarrow> dict_get d' k = dict_get d k)
     \<and> dict_get d' (PStr ''server_time'') = Some (PStr (now_iso w))
     \<and> dict_get d' (PStr ''tasks'') = Some (PList ts')
     \<and> length ts' = length ts
     \<and> (\<forall>i<length ts. \<exists>t tid. ts ! i = PDict t \<and> dict_get t (PStr ''id'') = Some tid
          \<and> ts' ! i = PDict (fst (merge_status w t (status_file w tid))))"
proof -
  from emitted_records [OF assms] obtain ts' where
    b: "body r = PDict (dict_set (dict_set d (PStr ''tasks'') (PList ts'))
                 (PStr ''server_time'') (PStr (now_iso w)))"
    and len: "length ts' = length ts"
    and nth: "\<forall>i<length ts. \<exists>t tid. ts ! i = PDict t \<and> dict_get t (PStr ''id'') = Some tid
          \<and> ts' ! i = PDict (fst (merge_status w t (status_file w tid)))"
    by blast
  let ?d' = "dict_set (dict_set d (PStr ''tasks'') (PList ts'))
                 (PStr ''server_time'') (PStr (now_iso w))"
  have keys: "map fst ?d' = map fst d @ (if dict_get d (PStr ''server_time'') = None
                                   then [PStr ''server_time''] else [])"
    using assms(3) by (simp add: keys_dict_set dict_get_dict_set)
  have others: "\<forall>k. k \<noteq> PStr ''tasks'' \<and> k \<noteq> PStr ''server_time'' \<longrightarrow> dict_get ?d' k = dict_get d k"
    by (simp add: dict_get_dict_set HStr_hash_key)
  have time: "dict_get ?d' (PStr ''server_time'') = Some (PStr (now_iso w))"
    by (simp add: dict_get_dict_set)
  from b keys others time len nth show ?thesis
    by (simp add: tasks_after_server_time)
qed

text \<open>The example document, whose \<^verbatim>\<open>server_time\<close> is overwritten.\<close>

theorem status_document_frame_witness:
  "list_all is_task [PDict demo_task_1, PDict demo_task_b, PDict demo_task_3]
   \<and> (\<exists>r d' ts'. fst (do_GET demo_world ''/api/status'') = Responded r \<and> body r = PDict d'
     \<and> map fst d' = [PStr ''board'', PStr ''tasks'', PStr ''server_time'']
     \<and> dict_get d' (PStr ''board'') = Some (PStr ''swarm'')
     \<and> dict_get d' (PStr ''server_time'') = Some (PStr ''2024-05-01T12:00:00'')
     \<and> dict_get d' (PStr ''tasks'') = Some (PList ts')
     \<and> length ts' = 3)"
proof -
  have valid: "list_all is_task [PDict demo_task_1, PDict demo_task_b, PDict demo_task_3]"
    by (simp add: is_task_def demo_task_ids)
  have keys: "map fst demo_doc = [PStr ''board'', PStr ''tasks'', PStr ''server_time'']"
    and time: "dict_get demo_doc (PStr ''server_time'') = Some (PStr ''old'')"
    and board: "dict_get demo_doc (PStr ''board'') = Some (PStr ''swarm'')"
    by (simp_all add: demo_doc_def)
  from demo_status_responds obtain r where
    r: "fst (do_GET demo_world ''/api/status'') = Responded r" ..
  from status_document_frame [OF demo_tasks_file r] obtain d' ts' where
    "body r = PDict d'"
    "map fst d' = map fst demo_doc @ (if dict_get demo_doc (PStr ''server_time'') = None
                                   then [PStr ''server_time''] else [])"
    "\<forall>k. k \<noteq> PStr ''tasks'' \<and> k \<noteq> PStr ''server_time'' \<longrightarrow> dict_get d' k = dict_get demo_doc k"
    "dict_get d' (PStr ''server_time'') = Some (PStr (now_iso demo_world))"
    "dict_get d' (PStr ''tasks'') = Some (PList ts')"
    "length ts' = length [PDict demo_task_1, PDict demo_task_b, PDict demo_task_3]"
    by blast
  with r valid keys time board show ?thesis
    by (auto simp: demo_files_simps)
qed








text \<open>
  Claim C7. Whatever the activity log holds, a response of \<^verbatim>\<open>GET /api/log\<close> has at most
  50 entries in its body. When the log is a file with a text, the lines kept are its
  last 50 lines (all of them when there are fewer); the entries of the body are those of
  the kept lines that are not empty after trimming, one entry each, in the order of the
  file; a line that is empty after trimming gives no entry.
\<close>

theorem log_window:
  assumes "fst (do_GET w ''/api/log'') = Responded r"
  shows "\<exists>es. body r = PDict [(PStr ''entries'', PList es)]
     \<and> length es \<le> 50
     \<and> (\<forall>c. files w LOG_FILE = Content c \<longrightarrow>
          es = map (\<lambda>l. log_entry w (strip l))
                 (filter (\<lambda>l. strip l \<noteq> []) (last_n 50 (readlines c)))
          \<and> (\<exists>older. readlines c = older @ last_n 50 (readlines c))
          \<and> length (last_n 50 (readlines c)) = min 50 (length (readlines c)))"
proof (cases "files w LOG_FILE")
  case (Content c)
  let ?window = "last_n 50 (readlines c)"
  let ?es = "map (\<lambda>l. log_entry w (strip l)) (filter (\<lambda>l. strip l \<noteq> []) ?window)"
  from send_log_content [OF Content] assms have "send_json w (PDict [(PStr ''entries'', PList ?es)]) = Responded r"
    by simp
  then have b: "body r = PDict [(PStr ''entries'', PList ?es)]" by (rule send_json_Responded(3))
  have "length (filter (\<lambda>l. strip l \<noteq> []) ?window) \<le> length ?window"
    by (rule length_filter_le)
  also have "\<dots> \<le> 50" by (rule length_last_n)
  finally have "length ?es \<le> 50" by simp
  with b last_n_suffix [of "readlines c" 50] length_last_n_min [of 50 "readlines c"] Content
  show ?thesis by auto
next
  case Absent
  with send_log_no_content [of w] assms
  have "send_json w (PDict [(PStr ''entries'', PList [])]) = Responded r" by simp
  then have "body r = PDict [(PStr ''entries'', PList [])]" by (rule send_json_Responded(3))
  with Absent show ?thesis by auto
next
  case Unreadable
  with send_log_no_content [of w] assms
  have "send_json w (PDict [(PStr ''entries'', PList [])]) = Responded r" by simp
  then have "body r = PDict [(PStr ''entries'', PList [])]" by (rule send_json_Responded(3))
  with Unreadable show ?thesis by auto
qed

text \<open>The example log has four lines, one of them blank: three entries.\<close>

theorem log_window_witness:
  "files demo_world LOG_FILE = Content demo_log_text
   \<and> length (readlines demo_log_text) = 4
   \<and> (\<exists>r es. fst (do_GET demo_world ''/api/log'') = Responded r
        \<and> body r = PDict [(PStr ''entries'', PList es)]
        \<and> length es = 3 \<and> length es \<le> 50)"
proof -
  from demo_log_run obtain r where r: "fst (do_GET demo_world ''/api/log'') = Responded r"
    and b: "body r = PDict [(PStr ''entries'', PList
       [PDict [(PStr ''time'', PStr ''t1''), (PStr ''msg'', PStr ''x'')],
        PDict [(PStr ''message'', PStr ''not json''), (PStr ''time'', PStr [])],
        PInt 5])]"
    by blast
  from log_window [OF r] obtain es where
    "body r = PDict [(PStr ''entries'', PList es)]" "length es \<le> 50"
    by blast
  with r b demo_log_file demo_readlines show ?thesis by auto
qed

text \<open>
  Claim C8. In a response of \<^verbatim>\<open>GET /api/log\<close>, the entry of a kept line that is not empty
  after trimming is the value \<^verbatim>\<open>json.loads\<close> gives for the trimmed line, or, when
  \<^verbatim>\<open>json.loads\<close> raises, \<^verbatim>\<open>{"message": <the trimmed line>, "time": ""}\<close>.
\<close>

theorem log_entry_parsed_or_wrapped:
  assumes "files w LOG_FILE = Content c"
    and "fst (do_GET w ''/api/log'') = Responded r"
  shows "body r = PDict [(PStr ''entries'', PList
       (map (\<lambda>l. case json_loads w (strip l) of
                         Some v \<Rightarrow> v
                       | None \<Rightarrow> PDict [(PStr ''message'', PStr (strip l)),
                                        (PStr ''time'', PStr [])])
               (filter (\<lambda>l. strip l \<noteq> []) (last_n 50 (readlines c)))))]"
proof -
  from send_log_content [OF assms(1)] assms(2)
  have "send_json w (PDict [(PStr ''entries'',
       PList (map (\<lambda>l. log_entry w (strip l))
                (filter (\<lambda>l. strip l \<noteq> []) (last_n 50 (readlines c)))))]) = Responded r"
    by simp
  from send_json_Responded(3) [OF this] show ?thesis by (simp add: log_entry_def)
qed

text \<open>The example log: a line that parses, and a line that does not.\<close>

theorem log_entry_parsed_or_wrapped_witness:
  "files demo_world LOG_FILE = Content demo_log_text
   \<and> (\<exists>r es. fst (do_GET demo_world ''/api/log'') = Responded r
        \<and> body r = PDict [(PStr ''entries'', PList es)]
        \<and> es ! 0 = PDict [(PStr ''time'', PStr ''t1''), (PStr ''msg'', PStr ''x'')]
        \<and> es ! 1 = PDict [(PStr ''message'', PStr ''not json''), (PStr ''time'', PStr [])])"
proof -
  from demo_log_run obtain r where r: "fst (do_GET demo_world ''/api/log'') = Responded r"
    and b: "body r = PDict [(PStr ''entries'', PList
       [PDict [(PStr ''time'', PStr ''t1''), (PStr ''msg'', PStr ''x'')],
        PDict [(PStr ''message'', PStr ''not json''), (PStr ''time'', PStr [])],
        PInt 5])]"
    by blast
  from log_entry_parsed_or_wrapped [OF demo_log_file r] b r demo_log_file
  show ?thesis by auto
qed



text \<open>
  Claim C10. When a kept line, not empty after trimming, parses to a value that is not an
  object (a number, a string, a boolean, \<^verbatim>\<open>null\<close>, an array), that value itself is an
  entry in the body of the response of \<^verbatim>\<open>GET /api/log\<close>: the entries of a response are not
  all objects.
\<close>

theorem log_entry_not_an_object:
  assumes "files w LOG_FILE = Content c"
    and "l \<in> set (last_n 50 (readlines c))" and "strip l \<noteq> []"
    and "json_loads w (strip l) = Some v" and "\<forall>d. v \<noteq> PDict d"
    and "fst (do_GET w ''/api/log'') = Responded r"
  shows "\<exists>es. body r = PDict [(PStr ''entries'', PList es)]
     \<and> v \<in> set es \<and> (\<exists>e \<in> set es. \<forall>d. e \<noteq> PDict d)"
proof -
  let ?es = "map (\<lambda>l. log_entry w (strip l))
               (filter (\<lambda>l. strip l \<noteq> []) (last_n 50 (readlines c)))"
  from assms(2,3) have "l \<in> set (filter (\<lambda>l. strip l \<noteq> []) (last_n 50 (readlines c)))"
    by simp
  then have "log_entry w (strip l) \<in> set ?es" by (auto intro!: image_eqI [where x = l])
  with assms(4) have v: "v \<in> set ?es" by (simp add: log_entry_def)
  from send_log_content [OF assms(1)] assms(6)
  have "send_json w (PDict [(PStr ''entries'', PList ?es)]) = Responded r" by simp
  then have "body r = PDict [(PStr ''entries'', PList ?es)]" by (rule send_json_Responded(3))
  with v assms(5) show ?thesis by blast
qed

text \<open>The last line of the example log is the number 5.\<close>

theorem log_entry_not_an_object_witness:
  "files demo_world LOG_FILE = Content demo_log_text
   \<and> json_loads demo_world ''5'' = Some (PInt 5)
   \<and> (\<exists>r es. fst (do_GET demo_world ''/api/log'') = Responded r
        \<and> body r = PDict [(PStr ''entries'', PList es)]
        \<and> PInt 5 \<in> set es)"
proof -
  have l: "''5'' @ [CHR 0x0A] \<in> set (last_n 50 (readlines demo_log_text))"
    by (simp add: demo_readlines last_n_def)
  have s: "strip (''5'' @ [CHR 0x0A]) \<noteq> []" by (simp only: demo_strip) simp
  have v: "json_loads demo_world (strip (''5'' @ [CHR 0x0A])) = Some (PInt 5)"
    by (simp only: demo_strip)
      (simp add: demo_files_simps demo_loads_def demo_tasks_text_def
        demo_status_1_text_def demo_log_line_text_def)
  have n: "\<forall>d. PInt 5 \<noteq> PDict d" by simp
  from demo_log_run obtain r where r: "fst (do_GET demo_world ''/api/log'') = Responded r"
    by blast
  from log_entry_not_an_object [OF demo_log_file l s v n r] v [unfolded demo_strip]
    demo_log_file r
  show ?thesis by auto
qed

end
